theory Spec2Isabelle
  imports
    Complex_Main
    "HOL-Library.Multiset"
    "HOL-Library.List_Lexorder"
    "HOL-Library.Char_ord"
    "HOL-Library.AList"
begin

section \<open>Python values carried by the vendor payload\<close>

text \<open>
  The coordinator's data and the live measurement are decoded JSON. A JSON object is
  an association list (\<open>map_of\<close> looks a key up), a number is a real (Python compares
  ints and floats exactly; the float product \<open>state *= 100.0\<close> is idealised as the
  real product). JSON booleans behave as the numbers 1 and 0 in every operation used
  by this module and are not a separate constructor.
\<close>

datatype json =
    JNull
  | JNum real
  | JStr string
  | JList "json list"
  | JDict "(string \<times> json) list"

datatype error =
    AttributeError
  | KeyError
  | TypeError
  | IndexError
  | TimeoutError
  | ClientError
  | OtherException
  | PlatformNotReady

text \<open>Truthiness, as \<open>if x:\<close> and \<open>not x\<close> evaluate it.\<close>

fun truthy :: "json \<Rightarrow> bool" where
  "truthy JNull = False"
| "truthy (JNum x) = (x \<noteq> 0)"
| "truthy (JStr s) = (s \<noteq> [])"
| "truthy (JList xs) = (xs \<noteq> [])"
| "truthy (JDict kvs) = (kvs \<noteq> [])"

text \<open>\<open>d.get(k, default)\<close>: only a dict has the method.\<close>

fun py_get :: "json \<Rightarrow> string \<Rightarrow> json \<Rightarrow> error + json" where
  "py_get (JDict kvs) k d = Inr (case map_of kvs k of None \<Rightarrow> d | Some v \<Rightarrow> v)"
| "py_get JNull k d = Inl AttributeError"
| "py_get (JNum x) k d = Inl AttributeError"
| "py_get (JStr s) k d = Inl AttributeError"
| "py_get (JList xs) k d = Inl AttributeError"

text \<open>\<open>d[k]\<close> with a string key.\<close>

fun py_getitem :: "json \<Rightarrow> string \<Rightarrow> error + json" where
  "py_getitem (JDict kvs) k = (case map_of kvs k of None \<Rightarrow> Inl KeyError | Some v \<Rightarrow> Inr v)"
| "py_getitem JNull k = Inl TypeError"
| "py_getitem (JNum x) k = Inl TypeError"
| "py_getitem (JStr s) k = Inl TypeError"
| "py_getitem (JList xs) k = Inl TypeError"

text \<open>\<open>x[0]\<close>. The keys of a JSON object are strings, so the integer key 0 is never there.\<close>

fun py_first :: "json \<Rightarrow> error + json" where
  "py_first (JList []) = Inl IndexError"
| "py_first (JList (x # xs)) = Inr x"
| "py_first (JStr []) = Inl IndexError"
| "py_first (JStr (c # cs)) = Inr (JStr [c])"
| "py_first (JDict kvs) = Inl KeyError"
| "py_first JNull = Inl TypeError"
| "py_first (JNum x) = Inl TypeError"

text \<open>
  \<open>a < b\<close>: numbers by value, strings and lists lexicographically, everything else
  raises TypeError. Inside a list the first pair of unequal elements decides; objects
  are compared there as association lists.
\<close>

fun py_lt :: "json \<Rightarrow> json \<Rightarrow> error + bool"
  and py_lt_list :: "json list \<Rightarrow> json list \<Rightarrow> error + bool" where
  "py_lt (JNum a) (JNum b) = Inr (a < b)"
| "py_lt (JStr a) (JStr b) = Inr (a < b)"
| "py_lt (JList xs) (JList ys) = py_lt_list xs ys"
| "py_lt _ _ = Inl TypeError"
| "py_lt_list [] [] = Inr False"
| "py_lt_list [] (y # ys) = Inr True"
| "py_lt_list (x # xs) [] = Inr False"
| "py_lt_list (x # xs) (y # ys) = (if x = y then py_lt_list xs ys else py_lt x y)"

text \<open>\<open>state *= 100.0\<close>: a sequence or a dict times a float raises TypeError.\<close>

fun py_mul_float :: "json \<Rightarrow> real \<Rightarrow> error + json" where
  "py_mul_float (JNum x) f = Inr (JNum (x * f))"
| "py_mul_float _ f = Inl TypeError"

section \<open>Dates and the host's date utilities\<close>

datatype tzinfo = FixedOffset int | Zone string

record datetime =
  year :: nat
  month :: nat
  day :: nat
  hour :: nat
  minute :: nat
  second :: nat
  microsecond :: nat
  tzinfo :: "tzinfo option"

text \<open>
  \<open>homeassistant.util.dt\<close> is the host's: its functions are parameters of the model.
  \<open>now\<close> is the value \<open>dt_util.now()\<close> returns at the call.
\<close>

record dt_util =
  now :: datetime
  parse_datetime :: "string \<Rightarrow> datetime option"
  as_utc :: "datetime \<Rightarrow> datetime"
  utc_from_timestamp :: "int \<Rightarrow> datetime"

text \<open>\<open>dt_util.parse_datetime(x)\<close>: matching anything but a string raises TypeError.\<close>

fun call_parse_datetime :: "dt_util \<Rightarrow> json \<Rightarrow> error + datetime option" where
  "call_parse_datetime dt (JStr s) = Inr (parse_datetime dt s)"
| "call_parse_datetime dt _ = Inl TypeError"

section \<open>Sensor metadata\<close>

datatype ResetType = HOURLY | DAILY | NEVER

text \<open>The host's constants, by name (their values are the host's).\<close>

datatype host_const =
    DEVICE_CLASS_CURRENT
  | DEVICE_CLASS_ENERGY
  | DEVICE_CLASS_MONETARY
  | DEVICE_CLASS_POWER
  | DEVICE_CLASS_POWER_FACTOR
  | DEVICE_CLASS_SIGNAL_STRENGTH
  | DEVICE_CLASS_VOLTAGE
  | STATE_CLASS_MEASUREMENT
  | ELECTRIC_CURRENT_AMPERE
  | ELECTRIC_POTENTIAL_VOLT
  | ENERGY_KILO_WATT_HOUR
  | PERCENTAGE
  | POWER_WATT
  | SIGNAL_STRENGTH_DECIBELS

text \<open>A Python \<open>str\<close> that is either written out or one of the host's constants.\<close>

datatype pystr = Lit string | Host host_const

record TibberSensorMetadata =
  key :: string
  name :: string
  device_class :: pystr
  unit :: "pystr option"
  state_class :: "pystr option"
  reset_type :: "ResetType option"

definition mk_metadata ::
  "string \<Rightarrow> string \<Rightarrow> host_const \<Rightarrow> host_const option \<Rightarrow> host_const option \<Rightarrow>
   ResetType option \<Rightarrow> TibberSensorMetadata" where
  "mk_metadata k n dc u sc rt =
     \<lparr>key = k, name = n, device_class = Host dc, unit = map_option Host u,
      state_class = map_option Host sc, reset_type = rt\<rparr>"

definition RT_SENSORS :: "TibberSensorMetadata list" where
  "RT_SENSORS =
    [mk_metadata ''averagePower'' ''average power'' DEVICE_CLASS_POWER (Some POWER_WATT) None None,
     mk_metadata ''power'' ''power'' DEVICE_CLASS_POWER (Some POWER_WATT) None None,
     mk_metadata ''powerProduction'' ''power production'' DEVICE_CLASS_POWER (Some POWER_WATT) None None,
     mk_metadata ''minPower'' ''min power'' DEVICE_CLASS_POWER (Some POWER_WATT) None None,
     mk_metadata ''maxPower'' ''max power'' DEVICE_CLASS_POWER (Some POWER_WATT) None None,
     mk_metadata ''accumulatedConsumption'' ''accumulated consumption'' DEVICE_CLASS_ENERGY
       (Some ENERGY_KILO_WATT_HOUR) (Some STATE_CLASS_MEASUREMENT) (Some DAILY),
     mk_metadata ''accumulatedConsumptionLastHour'' ''accumulated consumption current hour''
       DEVICE_CLASS_ENERGY (Some ENERGY_KILO_WATT_HOUR) (Some STATE_CLASS_MEASUREMENT) (Some HOURLY),
     mk_metadata ''accumulatedProduction'' ''accumulated production'' DEVICE_CLASS_ENERGY
       (Some ENERGY_KILO_WATT_HOUR) (Some STATE_CLASS_MEASUREMENT) (Some DAILY),
     mk_metadata ''accumulatedProductionLastHour'' ''accumulated production current hour''
       DEVICE_CLASS_ENERGY (Some ENERGY_KILO_WATT_HOUR) (Some STATE_CLASS_MEASUREMENT) (Some HOURLY),
     mk_metadata ''lastMeterConsumption'' ''last meter consumption'' DEVICE_CLASS_ENERGY
       (Some ENERGY_KILO_WATT_HOUR) (Some STATE_CLASS_MEASUREMENT) None,
     mk_metadata ''lastMeterProduction'' ''last meter production'' DEVICE_CLASS_ENERGY
       (Some ENERGY_KILO_WATT_HOUR) (Some STATE_CLASS_MEASUREMENT) None,
     mk_metadata ''voltagePhase1'' ''voltage phase1'' DEVICE_CLASS_VOLTAGE
       (Some ELECTRIC_POTENTIAL_VOLT) (Some STATE_CLASS_MEASUREMENT) None,
     mk_metadata ''voltagePhase2'' ''voltage phase2'' DEVICE_CLASS_VOLTAGE
       (Some ELECTRIC_POTENTIAL_VOLT) (Some STATE_CLASS_MEASUREMENT) None,
     mk_metadata ''voltagePhase3'' ''voltage phase3'' DEVICE_CLASS_VOLTAGE
       (Some ELECTRIC_POTENTIAL_VOLT) (Some STATE_CLASS_MEASUREMENT) None,
     mk_metadata ''currentL1'' ''current L1'' DEVICE_CLASS_CURRENT
       (Some ELECTRIC_CURRENT_AMPERE) (Some STATE_CLASS_MEASUREMENT) None,
     mk_metadata ''currentL2'' ''current L2'' DEVICE_CLASS_CURRENT
       (Some ELECTRIC_CURRENT_AMPERE) (Some STATE_CLASS_MEASUREMENT) None,
     mk_metadata ''currentL3'' ''current L3'' DEVICE_CLASS_CURRENT
       (Some ELECTRIC_CURRENT_AMPERE) (Some STATE_CLASS_MEASUREMENT) None,
     mk_metadata ''signalStrength'' ''signal strength'' DEVICE_CLASS_SIGNAL_STRENGTH
       (Some SIGNAL_STRENGTH_DECIBELS) (Some STATE_CLASS_MEASUREMENT) None,
     mk_metadata ''accumulatedReward'' ''accumulated reward'' DEVICE_CLASS_MONETARY
       None (Some STATE_CLASS_MEASUREMENT) (Some DAILY),
     mk_metadata ''accumulatedCost'' ''accumulated cost'' DEVICE_CLASS_MONETARY
       None (Some STATE_CLASS_MEASUREMENT) (Some DAILY),
     mk_metadata ''powerFactor'' ''power factor'' DEVICE_CLASS_POWER_FACTOR
       (Some PERCENTAGE) (Some STATE_CLASS_MEASUREMENT) None]"

section \<open>The vendor's home object\<close>

text \<open>
  What this module reads of a \<open>tibber.TibberHome\<close>: \<open>update_info\<close> is the exception
  the awaited call raises (None when it returns), the other fields are the attributes
  and the entries of \<open>info["viewer"]["home"]\<close> read afterwards.
\<close>

record tibber_home =
  home_id :: string
  app_nickname :: "string option"
  address1 :: "string option"
  currency :: "string option"
  update_info :: "error option"
  has_active_subscription :: bool
  has_real_time_consumption :: bool
  rt_subscription_running :: bool
  consumption_ean :: "string option"

section \<open>Entities\<close>

record TibberSensor =
  tibber_home :: tibber_home
  home_name :: string
  device_name :: "string option"
  model :: "string option"
  attr_name :: string
  attr_state :: json
  attr_unique_id :: string
  attr_unit_of_measurement :: "pystr option"

text \<open>\<open>TibberSensor.__init__\<close>: the home's nickname, or else \<open>address.get("address1", "")\<close>.\<close>

definition TibberSensor_home_name :: "tibber_home \<Rightarrow> string" where
  "TibberSensor_home_name h =
     (case app_nickname h of
        Some n \<Rightarrow> n
      | None \<Rightarrow> (case address1 h of Some a \<Rightarrow> a | None \<Rightarrow> ''''))"

record TibberSensorRT = TibberSensor +
  metadata :: TibberSensorMetadata
  attr_device_class :: pystr
  attr_state_class :: "pystr option"
  attr_last_reset :: "datetime option"
  coordinator :: nat

text \<open>
  \<open>TibberSensorRT.__init__\<close>. The coordinator is held by reference: \<open>co\<close> is its
  index in the table of coordinators.
\<close>

definition TibberSensorRT_init ::
  "dt_util \<Rightarrow> tibber_home \<Rightarrow> TibberSensorMetadata \<Rightarrow> json \<Rightarrow> nat \<Rightarrow> TibberSensorRT" where
  "TibberSensorRT_init dt h md initial_state co =
     \<lparr>tibber_home = h,
      home_name = TibberSensor_home_name h,
      device_name = Some (''Tibber Pulse'' @ '' '' @ TibberSensor_home_name h),
      model = Some ''Tibber Pulse'',
      attr_name = name md @ '' '' @ TibberSensor_home_name h,
      attr_state = initial_state,
      attr_unique_id = home_id h @ ''_rt_'' @ name md,
      attr_unit_of_measurement =
        (if key md \<in> set [''accumulatedCost'', ''accumulatedReward'']
         then map_option Lit (currency h)
         else unit md),
      metadata = md,
      attr_device_class = device_class md,
      attr_state_class = state_class md,
      attr_last_reset =
        (if reset_type md = Some NEVER then Some (utc_from_timestamp dt 0)
         else if reset_type md = Some DAILY then
           Some (as_utc dt ((now dt)\<lparr>hour := 0, minute := 0, second := 0, microsecond := 0\<rparr>))
         else if reset_type md = Some HOURLY then
           Some (as_utc dt ((now dt)\<lparr>minute := 0, second := 0, microsecond := 0\<rparr>))
         else None),
      coordinator = co\<rparr>"

section \<open>The coordinator's live measurement\<close>

text \<open>
  \<open>TibberRtDataCoordinator.get_live_measurement\<close>, on the coordinator's \<open>data\<close>.
  It assigns nothing; the log line is not part of the result.
\<close>

definition get_live_measurement :: "json \<Rightarrow> error + json" where
  "get_live_measurement data =
     (case py_get data ''errors'' JNull of
        Inl e \<Rightarrow> Inl e
      | Inr errors \<Rightarrow>
          if truthy errors then
            (case py_first errors of Inl e \<Rightarrow> Inl e | Inr logged \<Rightarrow> Inr JNull)
          else
            (case py_get data ''data'' (JDict []) of
               Inl e \<Rightarrow> Inl e
             | Inr d \<Rightarrow> py_get d ''liveMeasurement'' JNull))"

section \<open>A real-time sensor handling a coordinator update\<close>

text \<open>
  How a call of \<open>_handle_coordinator_update\<close> ends: it raises, it returns early, or it
  reaches \<open>async_write_ha_state\<close>. The sensor is returned in every case, with the
  attributes assigned up to that point.
\<close>

datatype outcome = Raised error | Returned | Written

definition reset_last_reset :: "dt_util \<Rightarrow> datetime \<Rightarrow> TibberSensorRT \<Rightarrow> TibberSensorRT" where
  "reset_last_reset dt timestamp self =
     (if reset_type (metadata self) = Some DAILY then
        self\<lparr>attr_last_reset :=
          Some (as_utc dt (timestamp\<lparr>hour := 0, minute := 0, second := 0, microsecond := 0\<rparr>))\<rparr>
      else if reset_type (metadata self) = Some HOURLY then
        self\<lparr>attr_last_reset :=
          Some (as_utc dt (timestamp\<lparr>minute := 0, second := 0, microsecond := 0\<rparr>))\<rparr>
      else self)"

definition store_state :: "json \<Rightarrow> TibberSensorRT \<Rightarrow> TibberSensorRT \<times> outcome" where
  "store_state state self =
     (case (if key (metadata self) = ''powerFactor'' then py_mul_float state 100 else Inr state) of
        Inl e \<Rightarrow> (self, Raised e)
      | Inr state' \<Rightarrow> (self\<lparr>attr_state := state'\<rparr>, Written))"

definition handle_coordinator_update ::
  "dt_util \<Rightarrow> json \<Rightarrow> TibberSensorRT \<Rightarrow> TibberSensorRT \<times> outcome" where
  "handle_coordinator_update dt data self =
     (case get_live_measurement data of
        Inl e \<Rightarrow> (self, Raised e)
      | Inr live_measurement \<Rightarrow>
          if \<not> truthy live_measurement then (self, Returned)
          else
            (case py_get live_measurement (key (metadata self)) JNull of
               Inl e \<Rightarrow> (self, Raised e)
             | Inr state \<Rightarrow>
                 if state = JNull then (self, Returned)
                 else
                   (case py_getitem live_measurement ''timestamp'' of
                      Inl e \<Rightarrow> (self, Raised e)
                    | Inr ts \<Rightarrow>
                        (case call_parse_datetime dt ts of
                           Inl e \<Rightarrow> (self, Raised e)
                         | Inr None \<Rightarrow> store_state state self
                         | Inr (Some timestamp) \<Rightarrow>
                             (case py_lt state (attr_state self) of
                                Inl e \<Rightarrow> (self, Raised e)
                              | Inr True \<Rightarrow> store_state state (reset_last_reset dt timestamp self)
                              | Inr False \<Rightarrow> store_state state self)))))"

section \<open>The price sensor\<close>

definition ICON :: string where
  "ICON = ''mdi:currency-usd''"

text \<open>\<open>MIN_TIME_BETWEEN_UPDATES = timedelta(minutes=5)\<close>, in seconds.\<close>

definition MIN_TIME_BETWEEN_UPDATES :: real where
  "MIN_TIME_BETWEEN_UPDATES = 5 * 60"

text \<open>
  \<open>throttle_last_call\<close> is the state the host's \<open>Throttle\<close> decorator keeps for
  \<open>_fetch_data\<close> on this entity: the clock reading of the last call it let through.
\<close>

record TibberSensorElPrice = TibberSensor +
  last_updated :: "datetime option"
  spread_load_constant :: nat
  attr_available :: bool
  attr_extra_state_attributes :: "(string \<times> json) list"
  attr_icon :: string
  throttle_last_call :: "real option"

text \<open>\<open>TibberSensorElPrice.__init__\<close>; \<open>r\<close> is the value \<open>randrange(5000)\<close> returns.\<close>

definition TibberSensorElPrice_init :: "tibber_home \<Rightarrow> nat \<Rightarrow> TibberSensorElPrice" where
  "TibberSensorElPrice_init h r =
     \<lparr>tibber_home = h,
      home_name = TibberSensor_home_name h,
      device_name = Some (''Electricity price '' @ TibberSensor_home_name h),
      model = Some ''Price Sensor'',
      attr_name = ''Electricity price '' @ TibberSensor_home_name h,
      attr_state = JNull,
      attr_unique_id = home_id h,
      attr_unit_of_measurement = None,
      last_updated = None,
      spread_load_constant = r,
      attr_available = False,
      attr_extra_state_attributes =
        [(''app_nickname'', JNull), (''grid_company'', JNull),
         (''estimated_annual_consumption'', JNull), (''price_level'', JNull),
         (''max_price'', JNull), (''avg_price'', JNull), (''min_price'', JNull),
         (''off_peak_1'', JNull), (''peak'', JNull), (''off_peak_2'', JNull)],
      attr_icon = ICON,
      throttle_last_call = None\<rparr>"

text \<open>
  The vendor's home as the price sensor reads it at one call: its price attributes and
  the entries of \<open>info["viewer"]["home"]\<close> that \<open>_fetch_data\<close> copies.
\<close>

record price_home =
  last_data_timestamp :: "datetime option"
  current_price_total :: "real option"
  current_price_data :: "json \<times> json \<times> datetime option"
  current_attributes :: "(string \<times> json) list"
  price_unit :: string
  info_app_nickname :: json
  info_grid_company :: json
  info_estimated_annual_consumption :: json

text \<open>
  One call of \<open>async_update\<close>, as the entity sees its surroundings: the host clock that
  \<open>Throttle\<close> reads (seconds), \<open>dt_util.now()\<close>, the standard library's
  \<open>(a - b).total_seconds()\<close>, the vendor's home before the call, and what awaiting
  \<open>update_info_and_price_info\<close> would do: the exception it raises, if any, and the
  home afterwards.
\<close>

record update_env =
  clock :: real
  env_now :: datetime
  total_seconds_between :: "datetime \<Rightarrow> datetime \<Rightarrow> real"
  home_before :: price_home
  update_info_and_price_info :: "error option \<times> price_home"

text \<open>
  Modelled from the spec: the host's \<open>Throttle\<close> decorator (\<open>homeassistant.util\<close>) is
  not part of this source. A throttled call runs the body when there was no earlier
  run or when more than \<open>min_time\<close> has passed since the last run, and is skipped
  otherwise.
\<close>

definition Throttle :: "real \<Rightarrow> real option \<Rightarrow> real \<Rightarrow> bool" where
  "Throttle min_time last_call t =
     (case last_call of None \<Rightarrow> True | Some l \<Rightarrow> min_time < t - l)"

text \<open>
  The body of \<open>_fetch_data\<close>: the exception that leaves it (None when it returns), the
  entity and the home after it.
\<close>

definition fetch_data_body ::
  "update_env \<Rightarrow> TibberSensorElPrice \<Rightarrow> error option \<times> TibberSensorElPrice \<times> price_home" where
  "fetch_data_body env self =
     (case update_info_and_price_info env of
        (Some e, home') \<Rightarrow>
          if e = TimeoutError \<or> e = ClientError then (None, self, home')
          else (Some e, self, home')
      | (None, home') \<Rightarrow>
          (None,
           self\<lparr>attr_extra_state_attributes :=
             AList.update ''estimated_annual_consumption'' (info_estimated_annual_consumption home')
               (AList.update ''grid_company'' (info_grid_company home')
                 (AList.update ''app_nickname'' (info_app_nickname home')
                   (attr_extra_state_attributes self)))\<rparr>,
           home'))"

text \<open>
  \<open>_fetch_data\<close> behind its decorator. The last component tells whether the body was run.
\<close>

definition fetch_data ::
  "update_env \<Rightarrow> TibberSensorElPrice \<Rightarrow>
   (error option \<times> TibberSensorElPrice \<times> price_home) \<times> bool" where
  "fetch_data env self =
     (if Throttle MIN_TIME_BETWEEN_UPDATES (throttle_last_call self) (clock env)
      then (fetch_data_body env (self\<lparr>throttle_last_call := Some (clock env)\<rparr>), True)
      else ((None, self, home_before env), False))"

definition asks_for_new_data :: "update_env \<Rightarrow> TibberSensorElPrice \<Rightarrow> bool" where
  "asks_for_new_data env self =
     (case last_data_timestamp (home_before env) of
        None \<Rightarrow> True
      | Some t \<Rightarrow>
          total_seconds_between env t (env_now env) < 5 * 3600 + real (spread_load_constant self)
          \<or> \<not> attr_available self)"

definition price_is_current :: "update_env \<Rightarrow> TibberSensorElPrice \<Rightarrow> bool" where
  "price_is_current env self =
     (case current_price_total (home_before env) of
        None \<Rightarrow> False
      | Some p \<Rightarrow>
          p \<noteq> 0 \<and>
          (case last_updated self of
             None \<Rightarrow> False
           | Some u \<Rightarrow> hour u = hour (env_now env) \<and> last_data_timestamp (home_before env) \<noteq> None))"

definition read_price :: "price_home \<Rightarrow> TibberSensorElPrice \<Rightarrow> TibberSensorElPrice" where
  "read_price home self =
     (case current_price_data home of
        (state, price_level, updated) \<Rightarrow>
          self\<lparr>attr_state := state,
               last_updated := updated,
               attr_extra_state_attributes :=
                 fold (\<lambda>(k, v). AList.update k v) (current_attributes home)
                   (AList.update ''price_level'' price_level (attr_extra_state_attributes self)),
               attr_available := (state \<noteq> JNull),
               attr_unit_of_measurement := Some (Lit (price_unit home))\<rparr>)"

text \<open>
  \<open>async_update\<close>: the exception raised (if any), the entity afterwards, and whether the
  body of \<open>_fetch_data\<close> was run during the call.
\<close>

definition async_update ::
  "update_env \<Rightarrow> TibberSensorElPrice \<Rightarrow> error option \<times> TibberSensorElPrice \<times> bool" where
  "async_update env self =
     (if asks_for_new_data env self then
        (case fetch_data env self of
           ((Some e, self', home'), body_ran) \<Rightarrow> (Some e, self', body_ran)
         | ((None, self', home'), body_ran) \<Rightarrow> (None, read_price home' self', body_ran))
      else if price_is_current env self then (None, self, False)
      else (None, read_price (home_before env) self, False))"

text \<open>
  A sequence of \<open>async_update\<close> calls on one entity: the clock readings at which the
  body of \<open>_fetch_data\<close> was run, in order, and the entity at the end.
\<close>

fun async_updates ::
  "update_env list \<Rightarrow> TibberSensorElPrice \<Rightarrow> real list \<times> TibberSensorElPrice" where
  "async_updates [] self = ([], self)"
| "async_updates (env # envs) self =
     (case async_update env self of
        (exn, self', body_ran) \<Rightarrow>
          (case async_updates envs self' of
             (ts, self'') \<Rightarrow> ((if body_ran then [clock env] else []) @ ts, self'')))"

section \<open>Coordinators and the module's list objects\<close>

text \<open>
  Python lists are objects: \<open>heap\<close> holds them by address. Address 0 is the module-level
  \<open>RT_SENSORS\<close>; a coordinator's \<open>_all_sensors\<close> is the address of its own list.
\<close>

record TibberRtDataCoordinator =
  all_sensors :: nat
  co_tibber_home :: tibber_home
  co_name :: string
  data :: json

datatype entity = PriceSensor TibberSensorElPrice | RealTimeSensor TibberSensorRT

datatype registry_call = UpdateEntity string string | UpdateDevice string string

record world =
  heap :: "TibberSensorMetadata list list"
  coordinators :: "TibberRtDataCoordinator list"
  add_entities_calls :: "(entity list \<times> bool) list"
  registry_calls :: "registry_call list"

definition RT_SENSORS_addr :: nat where
  "RT_SENSORS_addr = 0"

text \<open>The state after the module is imported.\<close>

definition module_loaded :: world where
  "module_loaded =
     \<lparr>heap = [RT_SENSORS], coordinators = [], add_entities_calls = [], registry_calls = []\<rparr>"

text \<open>
  \<open>TibberRtDataCoordinator.__init__\<close> followed by the vendor's \<open>rt_subscribe\<close>:
  \<open>RT_SENSORS.copy()\<close> allocates a new list with the contents found at address 0, and
  the coordinator joins the table of subscribed coordinators.
\<close>

definition rt_subscribe :: "tibber_home \<Rightarrow> world \<Rightarrow> world" where
  "rt_subscribe h w =
     w\<lparr>heap := heap w @ [heap w ! RT_SENSORS_addr],
       coordinators := coordinators w @
         [\<lparr>all_sensors = length (heap w),
           co_tibber_home = h,
           co_name = (case address1 h of Some a \<Rightarrow> a | None \<Rightarrow> ''Tibber''),
           data = JNull\<rparr>]\<rparr>"

text \<open>
  The loop of \<open>_add_sensors\<close>. Python's list iterator keeps an index \<open>i\<close> into the list
  it walks and stops when \<open>i\<close> reaches the current length; \<open>remove\<close> deletes the first
  equal element of that same list. Returned: the list as left behind, and the new
  entities or the exception raised.
\<close>

function add_sensors_loop ::
  "dt_util \<Rightarrow> tibber_home \<Rightarrow> nat \<Rightarrow> json \<Rightarrow> nat \<Rightarrow> TibberSensorMetadata list \<Rightarrow>
   TibberSensorRT list \<Rightarrow> TibberSensorMetadata list \<times> (error + TibberSensorRT list)" where
  "add_sensors_loop dt h co live_measurement i xs new_entities =
     (if i < length xs then
        (case py_get live_measurement (key (xs ! i)) JNull of
           Inl e \<Rightarrow> (xs, Inl e)
         | Inr state \<Rightarrow>
             if state = JNull
             then add_sensors_loop dt h co live_measurement (Suc i) xs new_entities
             else add_sensors_loop dt h co live_measurement (Suc i) (remove1 (xs ! i) xs)
                    (new_entities @ [TibberSensorRT_init dt h (xs ! i) state co]))
      else (xs, Inr new_entities))"
  by pat_completeness auto
termination
  by (relation "measure (\<lambda>(dt, h, co, lm, i, xs, acc). length xs - i)")
     (auto simp: length_remove1)

text \<open>
  \<open>_add_sensors\<close> of the coordinator at index \<open>co\<close>: the exception raised (if any) and
  the world afterwards. An index or address that names no object leaves the world as
  it is.
\<close>

definition add_sensors :: "dt_util \<Rightarrow> nat \<Rightarrow> world \<Rightarrow> error option \<times> world" where
  "add_sensors dt co w =
     (if co < length (coordinators w) \<and> all_sensors (coordinators w ! co) < length (heap w) then
        (case get_live_measurement (data (coordinators w ! co)) of
           Inl e \<Rightarrow> (Some e, w)
         | Inr live_measurement \<Rightarrow>
             if \<not> truthy live_measurement then (None, w)
             else
               (case add_sensors_loop dt (co_tibber_home (coordinators w ! co)) co live_measurement 0
                       (heap w ! all_sensors (coordinators w ! co)) [] of
                  (xs, Inl e) \<Rightarrow>
                    (Some e, w\<lparr>heap := (heap w)[all_sensors (coordinators w ! co) := xs]\<rparr>)
                | (xs, Inr new_entities) \<Rightarrow>
                    (None,
                     w\<lparr>heap := (heap w)[all_sensors (coordinators w ! co) := xs],
                       add_entities_calls :=
                         (if new_entities \<noteq> []
                          then add_entities_calls w @ [(map RealTimeSensor new_entities, False)]
                          else add_entities_calls w)\<rparr>)))
      else (None, w))"

text \<open>
  A coordinator update: the host's \<open>async_set_updated_data\<close> stores the data and runs
  the listener registered in \<open>__init__\<close>, which is \<open>_add_sensors\<close>.
\<close>

definition async_set_updated_data :: "dt_util \<Rightarrow> nat \<Rightarrow> json \<Rightarrow> world \<Rightarrow> error option \<times> world" where
  "async_set_updated_data dt co d w =
     (if co < length (coordinators w)
      then add_sensors dt co
             (w\<lparr>coordinators := (coordinators w)[co := (coordinators w ! co)\<lparr>data := d\<rparr>]\<rparr>)
      else (None, w))"

section \<open>Setting up the platform\<close>

record device_entry =
  device_id :: string
  config_entries :: "string list"

text \<open>
  The host's side of \<open>async_setup_entry\<close>: the config entry's id, the registries'
  lookups, and the values \<open>randrange(5000)\<close> returns, in the order of the calls.
\<close>

record host =
  entry_id :: string
  async_get_entity_id :: "string \<Rightarrow> string option"
  async_get_device :: "string \<Rightarrow> device_entry option"
  randrange :: "nat \<Rightarrow> nat"

text \<open>The migration of the old ids of one home; the registries' updates are recorded.\<close>

definition migrate :: "host \<Rightarrow> tibber_home \<Rightarrow> world \<Rightarrow> world" where
  "migrate hs h w =
     (case consumption_ean h of
        None \<Rightarrow> w
      | Some old_id \<Rightarrow>
          w\<lparr>registry_calls := registry_calls w @
              (case async_get_entity_id hs old_id of
                 None \<Rightarrow> []
               | Some old_entity_id \<Rightarrow> [UpdateEntity old_entity_id (home_id h)]) @
              (case async_get_device hs old_id of
                 None \<Rightarrow> []
               | Some d \<Rightarrow>
                   if entry_id hs \<in> set (config_entries d)
                   then [UpdateDevice (device_id d) (home_id h)] else [])\<rparr>)"

text \<open>The loop over the homes, with the entities collected so far.\<close>

fun setup_homes ::
  "host \<Rightarrow> tibber_home list \<Rightarrow> entity list \<Rightarrow> world \<Rightarrow> (error + entity list) \<times> world" where
  "setup_homes hs [] entities w = (Inr entities, w)"
| "setup_homes hs (h # homes) entities w =
     (case update_info h of
        Some e \<Rightarrow>
          if e = TimeoutError \<or> e = ClientError then (Inl PlatformNotReady, w) else (Inl e, w)
      | None \<Rightarrow>
          setup_homes hs homes
            (if has_active_subscription h
             then entities @ [PriceSensor (TibberSensorElPrice_init h (randrange hs (length entities)))]
             else entities)
            (migrate hs h (if has_real_time_consumption h then rt_subscribe h w else w)))"

definition async_setup_entry :: "host \<Rightarrow> tibber_home list \<Rightarrow> world \<Rightarrow> error option \<times> world" where
  "async_setup_entry hs homes w =
     (case setup_homes hs homes [] w of
        (Inl e, w') \<Rightarrow> (Some e, w')
      | (Inr entities, w') \<Rightarrow>
          (None, w'\<lparr>add_entities_calls := add_entities_calls w' @ [(entities, True)]\<rparr>))"

section \<open>Any number of setups and updates\<close>

datatype event =
    Setup host "tibber_home list"
  | Update dt_util nat json

fun step :: "event \<Rightarrow> world \<Rightarrow> world" where
  "step (Setup hs homes) w = snd (async_setup_entry hs homes w)"
| "step (Update dt co d) w = snd (async_set_updated_data dt co d w)"

definition run :: "event list \<Rightarrow> world \<Rightarrow> world" where
  "run events w = fold step events w"

text \<open>The real-time entities the coordinator at index \<open>co\<close> has handed to the host.\<close>

definition rt_entities :: "entity list \<Rightarrow> TibberSensorRT list" where
  "rt_entities es = concat (map (\<lambda>e. case e of RealTimeSensor s \<Rightarrow> [s] | PriceSensor p \<Rightarrow> []) es)"

definition registered_by :: "nat \<Rightarrow> world \<Rightarrow> TibberSensorRT list" where
  "registered_by co w =
     filter (\<lambda>s. coordinator s = co) (rt_entities (concat (map fst (add_entities_calls w))))"

section \<open>Invariant of the world\<close>

text \<open>
  What every reachable world satisfies: address 0 still holds \<open>RT_SENSORS\<close>, the
  coordinator at index \<open>co\<close> owns the list at address \<open>co + 1\<close>, and the descriptors of
  the entities it has registered together with those still pending in its list are
  drawn from \<open>RT_SENSORS\<close> without repetition.
\<close>

definition world_inv :: "world \<Rightarrow> bool" where
  "world_inv w =
     (length (heap w) = Suc (length (coordinators w)) \<and>
      heap w ! RT_SENSORS_addr = RT_SENSORS \<and>
      (\<forall>co < length (coordinators w).
          all_sensors (coordinators w ! co) = Suc co \<and>
          mset (map metadata (registered_by co w)) + mset (heap w ! Suc co) \<subseteq># mset RT_SENSORS) \<and>
      (\<forall>co \<ge> length (coordinators w). registered_by co w = []))"

section \<open>Sample values for evaluation\<close>

definition sample_timestamp :: datetime where
  "sample_timestamp =
     \<lparr>year = 2021, month = 6, day = 1, hour = 14, minute = 30, second = 15, microsecond = 0,
      tzinfo = Some (FixedOffset 0)\<rparr>"

definition sample_epoch :: datetime where
  "sample_epoch =
     \<lparr>year = 1970, month = 1, day = 1, hour = 0, minute = 0, second = 0, microsecond = 0,
      tzinfo = Some (FixedOffset 0)\<rparr>"

definition sample_parse_datetime :: "string \<Rightarrow> datetime option" where
  "sample_parse_datetime s =
     (if s = ''2021-06-01T14:30:15+00:00'' then Some sample_timestamp else None)"

text \<open>A host whose clock and timestamps are in UTC: \<open>as_utc\<close> returns such a date as it is.\<close>

definition sample_as_utc :: "datetime \<Rightarrow> datetime" where
  "sample_as_utc d = d"

definition sample_utc_from_timestamp :: "int \<Rightarrow> datetime" where
  "sample_utc_from_timestamp t = sample_epoch"

definition sample_dt_util :: dt_util where
  "sample_dt_util =
     \<lparr>now = sample_timestamp, parse_datetime = sample_parse_datetime,
      as_utc = sample_as_utc, utc_from_timestamp = sample_utc_from_timestamp\<rparr>"

definition sample_home :: tibber_home where
  "sample_home =
     \<lparr>home_id = ''home-1'', app_nickname = Some ''Cabin'', address1 = Some ''Road 1'',
      currency = Some ''NOK'', update_info = None, has_active_subscription = True,
      has_real_time_consumption = True, rt_subscription_running = True,
      consumption_ean = None\<rparr>"

text \<open>The coordinator's data around a live measurement with the given entries.\<close>

definition sample_data :: "(string \<times> json) list \<Rightarrow> json" where
  "sample_data lm = JDict [(''data'', JDict [(''liveMeasurement'', JDict lm)])]"

definition daily_metadata :: TibberSensorMetadata where
  "daily_metadata =
     mk_metadata ''accumulatedConsumption'' ''accumulated consumption'' DEVICE_CLASS_ENERGY
       (Some ENERGY_KILO_WATT_HOUR) (Some STATE_CLASS_MEASUREMENT) (Some DAILY)"

definition hourly_metadata :: TibberSensorMetadata where
  "hourly_metadata =
     mk_metadata ''accumulatedConsumptionLastHour'' ''accumulated consumption current hour''
       DEVICE_CLASS_ENERGY (Some ENERGY_KILO_WATT_HOUR) (Some STATE_CLASS_MEASUREMENT) (Some HOURLY)"


definition power_metadata :: TibberSensorMetadata where
  "power_metadata =
     mk_metadata ''power'' ''power'' DEVICE_CLASS_POWER (Some POWER_WATT) None None"

definition sample_sensor :: "TibberSensorMetadata \<Rightarrow> real \<Rightarrow> TibberSensorRT" where
  "sample_sensor md x = TibberSensorRT_init sample_dt_util sample_home md (JNum x) 0"

definition sample_host :: host where
  "sample_host =
     \<lparr>entry_id = ''entry-1'', async_get_entity_id = (\<lambda>old_id. None),
      async_get_device = (\<lambda>old_id. None), randrange = (\<lambda>n. 1234)\<rparr>"

definition sample_failing_home :: tibber_home where
  "sample_failing_home = sample_home\<lparr>home_id := ''home-2'', update_info := Some TimeoutError\<rparr>"

definition sample_inactive_home :: tibber_home where
  "sample_inactive_home =
     sample_home\<lparr>home_id := ''home-3'', has_active_subscription := False,
                 has_real_time_consumption := False\<rparr>"

text \<open>A live measurement with a value for every key of \<open>RT_SENSORS\<close>.\<close>

definition sample_full_measurement :: "(string \<times> json) list" where
  "sample_full_measurement =
     (''timestamp'', JStr ''2021-06-01T14:30:15+00:00'') # map (\<lambda>md. (key md, JNum 1)) RT_SENSORS"

definition sample_price_home :: price_home where
  "sample_price_home =
     \<lparr>last_data_timestamp = None, current_price_total = None,
      current_price_data = (JNull, JNull, None), current_attributes = [],
      price_unit = ''NOK/kWh'', info_app_nickname = JStr ''Cabin'',
      info_grid_company = JStr ''Grid'', info_estimated_annual_consumption = JNum 12000\<rparr>"

text \<open>A call of \<open>async_update\<close> at clock reading \<open>t\<close>, with a vendor that has no price data.\<close>

definition sample_env :: "real \<Rightarrow> update_env" where
  "sample_env t =
     \<lparr>clock = t, env_now = sample_timestamp, total_seconds_between = (\<lambda>a b. 0),
      home_before = sample_price_home, update_info_and_price_info = (None, sample_price_home)\<rparr>"

section \<open>The entities a setup hands to the host\<close>

text \<open>
  One \<open>TibberSensorElPrice\<close> for every home with an active subscription, in the order of
  the homes; \<open>n\<close> counts the \<open>randrange\<close> calls made before.
\<close>

definition price_entities :: "host \<Rightarrow> nat \<Rightarrow> tibber_home list \<Rightarrow> entity list" where
  "price_entities hs n homes =
     map (\<lambda>(i, h). PriceSensor (TibberSensorElPrice_init h (randrange hs i)))
       (enumerate n (filter has_active_subscription homes))"



section \<open>Helper lemmas\<close>

lemma get_live_measurement_sample [simp]:
  "get_live_measurement (sample_data lm) = Inr (JDict lm)"
  by (simp add: sample_data_def get_live_measurement_def)


lemma metadata_init [simp]: "metadata (TibberSensorRT_init dt h md s co) = md"
  and coordinator_init [simp]: "coordinator (TibberSensorRT_init dt h md s co) = co"
  by (simp_all add: TibberSensorRT_init_def)

lemma loop_done: "\<not> i < length xs \<Longrightarrow> add_sensors_loop dt h co lm i xs acc = (xs, Inr acc)"
  by simp

lemma loop_inv:
  "add_sensors_loop dt h co lm i xs acc = (xs', r) \<Longrightarrow> \<forall>s\<in>set acc. coordinator s = co \<Longrightarrow>
   (case r of
      Inl e \<Rightarrow> mset xs' \<subseteq># mset xs
    | Inr new \<Rightarrow> mset (map metadata new) + mset xs' = mset (map metadata acc) + mset xs
               \<and> (\<forall>s\<in>set new. coordinator s = co))"
proof (induction dt h co lm i xs acc arbitrary: xs' r rule: add_sensors_loop.induct)
  case (1 dt h co lm i xs acc)
  show ?case
  proof (cases "i < length xs")
    case False
    with "1.prems" show ?thesis by auto
  next
    case True
    note lt = this
    show ?thesis
    proof (cases "py_get lm (key (xs ! i)) JNull")
      case (Inl e)
      with lt "1.prems" show ?thesis by auto
    next
      case (Inr state)
      show ?thesis
      proof (cases "state = JNull")
        case True
        with lt Inr "1.prems" have "add_sensors_loop dt h co lm (Suc i) xs acc = (xs', r)" by simp
        from "1.IH"(1)[OF lt Inr True this "1.prems"(2)] show ?thesis .
      next
        case False
        let ?e = "TibberSensorRT_init dt h (xs ! i) state co"
        from lt Inr False "1.prems"
        have run: "add_sensors_loop dt h co lm (Suc i) (remove1 (xs ! i) xs) (acc @ [?e]) = (xs', r)"
          by simp
        have co: "\<forall>s\<in>set (acc @ [?e]). coordinator s = co" using "1.prems"(2) by auto
        have mem: "xs ! i \<in># mset xs" using lt by simp
        from "1.IH"(2)[OF lt Inr False run co] mem show ?thesis
          by (cases r) (auto simp: subset_mset.order_trans[OF _ diff_subset_eq_self])
      qed
    qed
  qed
qed

lemma registered_by_cong:
  "add_entities_calls w' = add_entities_calls w \<Longrightarrow> registered_by co w' = registered_by co w"
  by (simp add: registered_by_def)

lemma rt_entities_append [simp]: "rt_entities (xs @ ys) = rt_entities xs @ rt_entities ys"
  by (simp add: rt_entities_def)

lemma rt_entities_RealTime [simp]: "rt_entities (map RealTimeSensor ss) = ss"
  by (induction ss) (simp_all add: rt_entities_def)

lemma registered_by_add:
  "add_entities_calls w' = add_entities_calls w @ [(es, b)] \<Longrightarrow>
   registered_by co w' = registered_by co w @ filter (\<lambda>s. coordinator s = co) (rt_entities es)"
  by (simp add: registered_by_def)

lemma world_inv_module_loaded: "world_inv module_loaded"
  by (simp add: world_inv_def module_loaded_def RT_SENSORS_addr_def registered_by_def rt_entities_def)

lemma heap_rt_subscribe: "heap (rt_subscribe h w) = heap w @ [heap w ! RT_SENSORS_addr]"
  and length_coordinators_rt_subscribe:
    "length (coordinators (rt_subscribe h w)) = Suc (length (coordinators w))"
  and nth_coordinators_rt_subscribe:
    "co < length (coordinators w) \<Longrightarrow> coordinators (rt_subscribe h w) ! co = coordinators w ! co"
  and last_coordinators_rt_subscribe:
    "all_sensors (coordinators (rt_subscribe h w) ! length (coordinators w)) = length (heap w)"
  and registered_by_rt_subscribe: "registered_by co (rt_subscribe h w) = registered_by co w"
  by (simp_all add: rt_subscribe_def nth_append registered_by_def)

lemma world_inv_rt_subscribe:
  assumes "world_inv w" shows "world_inv (rt_subscribe h w)"
proof -
  have len: "length (heap w) = Suc (length (coordinators w))"
    and rt: "heap w ! 0 = RT_SENSORS"
    and old: "\<And>co. co < length (coordinators w) \<Longrightarrow>
          all_sensors (coordinators w ! co) = Suc co \<and>
          mset (map metadata (registered_by co w)) + mset (heap w ! Suc co) \<subseteq># mset RT_SENSORS"
    and none: "\<And>co. length (coordinators w) \<le> co \<Longrightarrow> registered_by co w = []"
    using assms by (simp_all add: world_inv_def RT_SENSORS_addr_def)
  show ?thesis
    unfolding world_inv_def
  proof (intro conjI allI impI)
    show "length (heap (rt_subscribe h w)) = Suc (length (coordinators (rt_subscribe h w)))"
      using len by (simp add: heap_rt_subscribe length_coordinators_rt_subscribe)
    show "heap (rt_subscribe h w) ! RT_SENSORS_addr = RT_SENSORS"
      using len rt by (simp add: heap_rt_subscribe RT_SENSORS_addr_def nth_append)
  next
    fix co assume "co < length (coordinators (rt_subscribe h w))"
    then consider "co < length (coordinators w)" | "co = length (coordinators w)"
      unfolding length_coordinators_rt_subscribe by linarith
    then have "all_sensors (coordinators (rt_subscribe h w) ! co) = Suc co \<and>
          mset (map metadata (registered_by co (rt_subscribe h w))) +
          mset (heap (rt_subscribe h w) ! Suc co) \<subseteq># mset RT_SENSORS"
    proof cases
      case 1
      with old[OF 1] len show ?thesis
        by (simp add: heap_rt_subscribe nth_coordinators_rt_subscribe
            registered_by_rt_subscribe nth_append)
    next
      case 2
      with none[of co] len rt show ?thesis
        by (simp add: heap_rt_subscribe last_coordinators_rt_subscribe
            registered_by_rt_subscribe nth_append RT_SENSORS_addr_def)
    qed
    then show "all_sensors (coordinators (rt_subscribe h w) ! co) = Suc co"
      and "mset (map metadata (registered_by co (rt_subscribe h w))) +
          mset (heap (rt_subscribe h w) ! Suc co) \<subseteq># mset RT_SENSORS" by simp_all
  next
    fix co assume "length (coordinators (rt_subscribe h w)) \<le> co"
    then show "registered_by co (rt_subscribe h w) = []"
      using none[of co] by (simp add: length_coordinators_rt_subscribe registered_by_rt_subscribe)
  qed
qed

lemma world_inv_frame:
  "world_inv w \<Longrightarrow> heap w' = heap w \<Longrightarrow> (\<And>co. registered_by co w' = registered_by co w) \<Longrightarrow>
   length (coordinators w') = length (coordinators w) \<Longrightarrow>
   (\<And>co. co < length (coordinators w) \<Longrightarrow>
      all_sensors (coordinators w' ! co) = all_sensors (coordinators w ! co)) \<Longrightarrow>
   world_inv w'"
  unfolding world_inv_def by simp

lemma migrate_frame:
  "heap (migrate hs h w) = heap w" "coordinators (migrate hs h w) = coordinators w"
  "add_entities_calls (migrate hs h w) = add_entities_calls w"
  by (simp_all add: migrate_def split: option.splits)

lemma world_inv_migrate: "world_inv w \<Longrightarrow> world_inv (migrate hs h w)"
  by (erule world_inv_frame) (simp_all add: migrate_frame registered_by_def)

lemma setup_homes_inv:
  "world_inv w \<Longrightarrow> setup_homes hs homes es w = (r, w') \<Longrightarrow>
   world_inv w' \<and> add_entities_calls w' = add_entities_calls w \<and>
   (\<forall>es'. r = Inr es' \<longrightarrow> rt_entities es' = rt_entities es)"
proof (induction hs homes es w rule: setup_homes.induct)
  case (1 hs entities w)
  then show ?case by auto
next
  case (2 hs h homes entities w)
  show ?case
  proof (cases "update_info h")
    case (Some e)
    with "2.prems" show ?thesis by (auto split: if_splits)
  next
    case None
    let ?es = "if has_active_subscription h
             then entities @ [PriceSensor (TibberSensorElPrice_init h (randrange hs (length entities)))]
             else entities"
    let ?w = "migrate hs h (if has_real_time_consumption h then rt_subscribe h w else w)"
    have inv: "world_inv ?w"
      using "2.prems"(1) by (simp add: world_inv_migrate world_inv_rt_subscribe)
    have run: "setup_homes hs homes ?es ?w = (r, w')" using "2.prems"(2) None by simp
    have calls: "add_entities_calls ?w = add_entities_calls w"
      by (simp add: migrate_frame rt_subscribe_def)
    have rts: "rt_entities ?es = rt_entities entities" by (simp add: rt_entities_def)
    from "2.IH"[OF None inv run] calls rts show ?thesis by simp
  qed
qed

lemma world_inv_async_setup_entry:
  assumes "world_inv w" shows "world_inv (snd (async_setup_entry hs homes w))"
proof -
  obtain r w' where run: "setup_homes hs homes [] w = (r, w')" by (cases "setup_homes hs homes [] w")
  from setup_homes_inv[OF assms run]
  have inv: "world_inv w'" and rts: "\<forall>es'. r = Inr es' \<longrightarrow> rt_entities es' = []"
    by (simp_all add: rt_entities_def)
  show ?thesis
  proof (cases r)
    case (Inl e)
    with run inv show ?thesis by (simp add: async_setup_entry_def)
  next
    case (Inr es)
    with rts have none: "rt_entities es = []" by simp
    let ?w = "w'\<lparr>add_entities_calls := add_entities_calls w' @ [(es, True)]\<rparr>"
    have "registered_by co ?w = registered_by co w'" for co
      using registered_by_add[of ?w w' es True co] none by simp
    then have "world_inv ?w" by (intro world_inv_frame[OF inv]) simp_all
    with run Inr show ?thesis by (simp add: async_setup_entry_def)
  qed
qed

lemma world_inv_update_list:
  assumes inv: "world_inv w" and co: "co < length (coordinators w)"
    and own: "\<forall>s\<in>set new. coordinator s = co"
    and sub: "mset (map metadata new) + mset xs \<subseteq># mset (heap w ! Suc co)"
    and heap': "heap w' = (heap w)[Suc co := xs]"
    and coords': "coordinators w' = coordinators w"
    and reg': "\<And>c. registered_by c w' = registered_by c w @ filter (\<lambda>s. coordinator s = c) new"
  shows "world_inv w'"
proof -
  have len: "length (heap w) = Suc (length (coordinators w))"
    and rt: "heap w ! 0 = RT_SENSORS"
    and old: "\<And>c. c < length (coordinators w) \<Longrightarrow>
          all_sensors (coordinators w ! c) = Suc c \<and>
          mset (map metadata (registered_by c w)) + mset (heap w ! Suc c) \<subseteq># mset RT_SENSORS"
    and none: "\<And>c. length (coordinators w) \<le> c \<Longrightarrow> registered_by c w = []"
    using inv by (simp_all add: world_inv_def RT_SENSORS_addr_def)
  have filt: "filter (\<lambda>s. coordinator s = c) new = (if c = co then new else [])" for c
    using own by (auto simp: filter_empty_conv)
  show ?thesis
    unfolding world_inv_def
  proof (intro conjI allI impI)
    show "length (heap w') = Suc (length (coordinators w'))"
      using len by (simp add: heap' coords')
    show "heap w' ! RT_SENSORS_addr = RT_SENSORS"
      using rt by (simp add: heap' RT_SENSORS_addr_def)
  next
    fix c assume c: "c < length (coordinators w')"
    then have c': "c < length (coordinators w)" by (simp add: coords')
    show "all_sensors (coordinators w' ! c) = Suc c"
      using old[OF c'] by (simp add: coords')
    show "mset (map metadata (registered_by c w')) + mset (heap w' ! Suc c) \<subseteq># mset RT_SENSORS"
    proof (cases "c = co")
      case True
      have "mset (map metadata (registered_by co w')) + mset (heap w' ! Suc co) =
            mset (map metadata (registered_by co w)) + (mset (map metadata new) + mset xs)"
        using co len by (simp add: reg' filt heap')
      also have "\<dots> \<subseteq># mset (map metadata (registered_by co w)) + mset (heap w ! Suc co)"
        using sub by (simp only: subset_mset.add_left_mono)
      also have "\<dots> \<subseteq># mset RT_SENSORS" using old[OF co] by simp
      finally show ?thesis using True by simp
    next
      case False
      then show ?thesis using old[OF c'] by (simp add: reg' filt heap')
    qed
  next
    fix c assume "length (coordinators w') \<le> c"
    then have "length (coordinators w) \<le> c" by (simp add: coords')
    with co have "c \<noteq> co" by simp
    with none[OF \<open>length (coordinators w) \<le> c\<close>] show "registered_by c w' = []"
      by (simp add: reg' filt)
  qed
qed

lemma world_inv_add_sensors:
  assumes inv: "world_inv w" shows "world_inv (snd (add_sensors dt co w))"
proof (cases "co < length (coordinators w) \<and> all_sensors (coordinators w ! co) < length (heap w)")
  case False
  then show ?thesis using inv by (auto simp: add_sensors_def)
next
  case True
  then have co: "co < length (coordinators w)" by simp
  have addr: "all_sensors (coordinators w ! co) = Suc co"
    using inv co by (simp add: world_inv_def)
  show ?thesis
  proof (cases "get_live_measurement (data (coordinators w ! co))")
    case (Inl e)
    then show ?thesis using inv True by (simp add: add_sensors_def)
  next
    case (Inr lm)
    show ?thesis
    proof (cases "truthy lm")
      case False
      then show ?thesis using inv True Inr by (simp add: add_sensors_def)
    next
      case truthy: True
      obtain xs r where loop:
        "add_sensors_loop dt (co_tibber_home (coordinators w ! co)) co lm 0 (heap w ! Suc co) [] = (xs, r)"
        by (cases "add_sensors_loop dt (co_tibber_home (coordinators w ! co)) co lm 0 (heap w ! Suc co) []")
      note li = loop_inv[OF loop]
      show ?thesis
      proof (cases r)
        case (Inl e)
        with li have sub: "mset (map metadata []) + mset xs \<subseteq># mset (heap w ! Suc co)" by simp
        have "world_inv (w\<lparr>heap := (heap w)[Suc co := xs]\<rparr>)"
          by (rule world_inv_update_list[OF inv co _ sub]) (simp_all add: registered_by_def)
        then show ?thesis using True Inr truthy loop Inl addr by (simp add: add_sensors_def)
      next
        case (Inr new)
        with li have eq: "mset (map metadata new) + mset xs = mset (heap w ! Suc co)"
          and own: "\<forall>s\<in>set new. coordinator s = co" by simp_all
        then have sub: "mset (map metadata new) + mset xs \<subseteq># mset (heap w ! Suc co)" by simp
        let ?w = "w\<lparr>heap := (heap w)[Suc co := xs],
                    add_entities_calls :=
                         (if new \<noteq> []
                          then add_entities_calls w @ [(map RealTimeSensor new, False)]
                          else add_entities_calls w)\<rparr>"
        have "world_inv ?w"
          by (rule world_inv_update_list[OF inv co own sub]) (simp_all add: registered_by_def)
        then show ?thesis using True \<open>get_live_measurement _ = Inr lm\<close> truthy loop Inr addr
          by (simp add: add_sensors_def)
      qed
    qed
  qed
qed

lemma world_inv_async_set_updated_data:
  assumes inv: "world_inv w" shows "world_inv (snd (async_set_updated_data dt co d w))"
proof (cases "co < length (coordinators w)")
  case False
  then show ?thesis using inv by (simp add: async_set_updated_data_def)
next
  case True
  let ?w = "w\<lparr>coordinators := (coordinators w)[co := (coordinators w ! co)\<lparr>data := d\<rparr>]\<rparr>"
  have "world_inv ?w"
    by (rule world_inv_frame[OF inv]) (use True in \<open>auto simp: registered_by_def nth_list_update\<close>)
  then show ?thesis using True by (simp add: async_set_updated_data_def world_inv_add_sensors)
qed

lemma world_inv_step: "world_inv w \<Longrightarrow> world_inv (step ev w)"
  by (cases ev) (simp_all add: world_inv_async_setup_entry world_inv_async_set_updated_data)

lemma world_inv_fold: "world_inv w \<Longrightarrow> world_inv (fold step events w)"
  by (induction events arbitrary: w) (simp_all add: world_inv_step)

lemma world_inv_run: "world_inv (run events module_loaded)"
  by (simp add: run_def world_inv_fold world_inv_module_loaded)

lemma distinct_keys: "distinct (map key RT_SENSORS)"
  by (simp add: RT_SENSORS_def mk_metadata_def)

lemma distinct_names: "distinct (map name RT_SENSORS)"
  by (simp add: RT_SENSORS_def mk_metadata_def)

lemma distinct_of_submset:
  assumes sub: "mset xs \<subseteq># mset ys" and d: "distinct ys"
  shows "distinct xs"
  unfolding distinct_count_atmost_1
proof (intro allI)
  fix a
  have "count (mset xs) a \<le> count (mset ys) a" by (rule mset_subset_eq_count[OF sub])
  also have "\<dots> \<le> 1" using d[unfolded distinct_count_atmost_1] by simp
  finally have le: "count (mset xs) a \<le> 1" .
  show "count (mset xs) a = (if a \<in> set xs then 1 else 0)"
  proof (cases "a \<in> set xs")
    case True
    then have "1 \<le> count (mset xs) a" by (simp add: Suc_le_eq)
    with le have "count (mset xs) a = 1" by (rule order_antisym)
    with True show ?thesis by simp
  next
    case False
    then show ?thesis by (simp add: count_mset_0_iff)
  qed
qed

section \<open>The claims\<close>

text \<open>
  C1. A real-time sensor whose metadata says DAILY (HOURLY) receives an update whose live
  measurement holds its key and a timestamp that parses. If the new reading is
  strictly smaller than the current state, \<open>last_reset\<close> becomes the start of the
  timestamp's day (hour), that is the timestamp with the smaller fields set to 0,
  passed through \<open>as_utc\<close>. If the reading is not smaller, \<open>last_reset\<close> stays as it was.
\<close>

theorem last_reset_on_smaller_reading:
  assumes "get_live_measurement d = Inr (JDict kvs)"
    and "map_of kvs (key (metadata self)) = Some state" and "state \<noteq> JNull"
    and "map_of kvs ''timestamp'' = Some (JStr s)"
    and "parse_datetime dt s = Some timestamp"
  shows "(py_lt state (attr_state self) = Inr True \<longrightarrow>
           (reset_type (metadata self) = Some DAILY \<longrightarrow>
              attr_last_reset (fst (handle_coordinator_update dt d self)) =
                Some (as_utc dt (timestamp\<lparr>hour := 0, minute := 0, second := 0, microsecond := 0\<rparr>))) \<and>
           (reset_type (metadata self) = Some HOURLY \<longrightarrow>
              attr_last_reset (fst (handle_coordinator_update dt d self)) =
                Some (as_utc dt (timestamp\<lparr>minute := 0, second := 0, microsecond := 0\<rparr>)))) \<and>
         (py_lt state (attr_state self) = Inr False \<longrightarrow>
            attr_last_reset (fst (handle_coordinator_update dt d self)) = attr_last_reset self)"
proof -
  have "kvs \<noteq> []" using assms(2) by auto
  then show ?thesis using assms
    by (auto simp: handle_coordinator_update_def store_state_def reset_last_reset_def
        split: sum.splits)
qed

theorem last_reset_on_smaller_reading_witness:
  "attr_last_reset (fst (handle_coordinator_update sample_dt_util
      (sample_data [(''timestamp'', JStr ''2021-06-01T14:30:15+00:00''),
                    (''accumulatedConsumption'', JNum 1)])
      (sample_sensor daily_metadata 10))) =
     Some (sample_timestamp\<lparr>hour := 0, minute := 0, second := 0, microsecond := 0\<rparr>) \<and>
   attr_last_reset (fst (handle_coordinator_update sample_dt_util
      (sample_data [(''timestamp'', JStr ''2021-06-01T14:30:15+00:00''),
                    (''accumulatedConsumptionLastHour'', JNum 1)])
      (sample_sensor hourly_metadata 10))) =
     Some (sample_timestamp\<lparr>minute := 0, second := 0, microsecond := 0\<rparr>) \<and>
   attr_last_reset (fst (handle_coordinator_update sample_dt_util
      (sample_data [(''timestamp'', JStr ''2021-06-01T14:30:15+00:00''),
                    (''accumulatedConsumption'', JNum 12)])
      (sample_sensor daily_metadata 10))) =
     attr_last_reset (sample_sensor daily_metadata 10)"
proof -
  let ?ts = "''2021-06-01T14:30:15+00:00''"
  have p: "parse_datetime sample_dt_util ?ts = Some sample_timestamp"
    by (simp add: sample_dt_util_def sample_parse_datetime_def)
  have a: "as_utc sample_dt_util x = x" for x by (simp add: sample_dt_util_def sample_as_utc_def)
  note t1 = last_reset_on_smaller_reading[where dt = sample_dt_util and s = ?ts
      and timestamp = sample_timestamp and state = "JNum 1"
      and self = "sample_sensor daily_metadata 10"
      and kvs = "[(''timestamp'', JStr ?ts), (''accumulatedConsumption'', JNum 1)]"
      and d = "sample_data [(''timestamp'', JStr ?ts), (''accumulatedConsumption'', JNum 1)]"]
  note t2 = last_reset_on_smaller_reading[where dt = sample_dt_util and s = ?ts
      and timestamp = sample_timestamp and state = "JNum 1"
      and self = "sample_sensor hourly_metadata 10"
      and kvs = "[(''timestamp'', JStr ?ts), (''accumulatedConsumptionLastHour'', JNum 1)]"
      and d = "sample_data [(''timestamp'', JStr ?ts), (''accumulatedConsumptionLastHour'', JNum 1)]"]
  note t3 = last_reset_on_smaller_reading[where dt = sample_dt_util and s = ?ts
      and timestamp = sample_timestamp and state = "JNum 12"
      and self = "sample_sensor daily_metadata 10"
      and kvs = "[(''timestamp'', JStr ?ts), (''accumulatedConsumption'', JNum 12)]"
      and d = "sample_data [(''timestamp'', JStr ?ts), (''accumulatedConsumption'', JNum 12)]"]
  have m: "key (metadata (sample_sensor daily_metadata 10)) = ''accumulatedConsumption''"
    "key (metadata (sample_sensor hourly_metadata 10)) = ''accumulatedConsumptionLastHour''"
    "reset_type (metadata (sample_sensor daily_metadata 10)) = Some DAILY"
    "reset_type (metadata (sample_sensor hourly_metadata 10)) = Some HOURLY"
    "attr_state (sample_sensor daily_metadata 10) = JNum 10"
    "attr_state (sample_sensor hourly_metadata 10) = JNum 10"
    by (simp_all add: sample_sensor_def TibberSensorRT_init_def daily_metadata_def
        hourly_metadata_def mk_metadata_def)
  from t1 have c1: "attr_last_reset (fst (handle_coordinator_update sample_dt_util
      (sample_data [(''timestamp'', JStr ?ts), (''accumulatedConsumption'', JNum 1)])
      (sample_sensor daily_metadata 10))) =
     Some (sample_timestamp\<lparr>hour := 0, minute := 0, second := 0, microsecond := 0\<rparr>)"
    by (simp add: m p a)
  from t2 have c2: "attr_last_reset (fst (handle_coordinator_update sample_dt_util
      (sample_data [(''timestamp'', JStr ?ts), (''accumulatedConsumptionLastHour'', JNum 1)])
      (sample_sensor hourly_metadata 10))) =
     Some (sample_timestamp\<lparr>minute := 0, second := 0, microsecond := 0\<rparr>)"
    by (simp add: m p a)
  from t3 have c3: "attr_last_reset (fst (handle_coordinator_update sample_dt_util
      (sample_data [(''timestamp'', JStr ?ts), (''accumulatedConsumption'', JNum 12)])
      (sample_sensor daily_metadata 10))) =
     attr_last_reset (sample_sensor daily_metadata 10)"
    by (simp add: m p a)
  from c1 c2 c3 show ?thesis by simp
qed




text \<open>
  C5. The unit of measurement assigned by \<open>TibberSensorRT.__init__\<close> is the home's
  currency when the key is \<open>accumulatedCost\<close> or \<open>accumulatedReward\<close>, and the unit the
  metadata declares for every other key.
\<close>

theorem unit_of_measurement_at_construction:
  "attr_unit_of_measurement (TibberSensorRT_init dt h md initial_state co) =
     (if key md = ''accumulatedCost'' \<or> key md = ''accumulatedReward''
      then map_option Lit (currency h) else unit md)"
  by (simp add: TibberSensorRT_init_def)

text \<open>
  C7. \<open>RT_SENSORS\<close> has 21 records with pairwise distinct keys and pairwise distinct
  names, and after any sequence of setups and coordinator updates the list object at
  the module's address still holds exactly \<open>RT_SENSORS\<close>: every coordinator works on
  its own copy.
\<close>

theorem RT_SENSORS_static:
  "length RT_SENSORS = 21 \<and> distinct (map key RT_SENSORS) \<and> distinct (map name RT_SENSORS) \<and>
   RT_SENSORS_addr < length (heap (run events module_loaded)) \<and>
   heap (run events module_loaded) ! RT_SENSORS_addr = RT_SENSORS"
proof -
  have "length RT_SENSORS = 21" by (simp add: RT_SENSORS_def)
  moreover have "RT_SENSORS_addr < length (heap (run events module_loaded))"
    and "heap (run events module_loaded) ! RT_SENSORS_addr = RT_SENSORS"
    using world_inv_run[of events] by (simp_all add: world_inv_def RT_SENSORS_addr_def)
  ultimately show ?thesis using distinct_keys distinct_names by simp
qed

text \<open>
  C8. When the live measurement is absent or empty, or the sensor's own key is missing
  from it or maps to None, \<open>_handle_coordinator_update\<close> returns early: the sensor,
  with its state and \<open>last_reset\<close>, is unchanged and \<open>async_write_ha_state\<close> is not
  reached.
\<close>

theorem update_without_reading:
  assumes "get_live_measurement d = Inr lm"
    and "\<not> truthy lm \<or>
         (\<exists>kvs. lm = JDict kvs \<and> map_of kvs (key (metadata self)) \<in> {None, Some JNull})"
  shows "handle_coordinator_update dt d self = (self, Returned)"
  using assms by (auto simp: handle_coordinator_update_def)

theorem update_without_reading_witness:
  "handle_coordinator_update sample_dt_util (JDict [(''data'', JDict [])])
     (sample_sensor power_metadata 1200) = (sample_sensor power_metadata 1200, Returned) \<and>
   handle_coordinator_update sample_dt_util
     (sample_data [(''timestamp'', JStr ''2021-06-01T14:30:15+00:00''), (''power'', JNull)])
     (sample_sensor power_metadata 1200) = (sample_sensor power_metadata 1200, Returned) \<and>
   handle_coordinator_update sample_dt_util
     (sample_data [(''timestamp'', JStr ''2021-06-01T14:30:15+00:00'')])
     (sample_sensor power_metadata 1200) = (sample_sensor power_metadata 1200, Returned)"
proof -
  let ?ts = "''2021-06-01T14:30:15+00:00''"
  have k: "key (metadata (sample_sensor power_metadata 1200)) = ''power''"
    by (simp add: sample_sensor_def TibberSensorRT_init_def power_metadata_def mk_metadata_def)
  have g: "get_live_measurement (JDict [(''data'', JDict [])]) = Inr JNull"
    by (simp add: get_live_measurement_def)
  from update_without_reading[OF g, of "sample_sensor power_metadata 1200" sample_dt_util]
  have c1: "handle_coordinator_update sample_dt_util (JDict [(''data'', JDict [])])
     (sample_sensor power_metadata 1200) = (sample_sensor power_metadata 1200, Returned)"
    by simp
  from update_without_reading[where d = "sample_data [(''timestamp'', JStr ?ts), (''power'', JNull)]"
      and lm = "JDict [(''timestamp'', JStr ?ts), (''power'', JNull)]"
      and self = "sample_sensor power_metadata 1200" and dt = sample_dt_util]
  have c2: "handle_coordinator_update sample_dt_util
     (sample_data [(''timestamp'', JStr ?ts), (''power'', JNull)])
     (sample_sensor power_metadata 1200) = (sample_sensor power_metadata 1200, Returned)"
    by (simp add: k)
  from update_without_reading[where d = "sample_data [(''timestamp'', JStr ?ts)]"
      and lm = "JDict [(''timestamp'', JStr ?ts)]"
      and self = "sample_sensor power_metadata 1200" and dt = sample_dt_util]
  have c3: "handle_coordinator_update sample_dt_util
     (sample_data [(''timestamp'', JStr ?ts)])
     (sample_sensor power_metadata 1200) = (sample_sensor power_metadata 1200, Returned)"
    by (simp add: k)
  from c1 c2 c3 show ?thesis by simp
qed




text \<open>
  C10. On every coordinator, after any sequence of setups and coordinator updates, the
  real-time entities it has handed to the host have pairwise distinct keys: a
  descriptor leaves the coordinator's list in the update that creates its entity.
\<close>

theorem one_entity_per_key:
  "distinct (map (\<lambda>s. key (metadata s)) (registered_by co (run events module_loaded)))"
proof (cases "co < length (coordinators (run events module_loaded))")
  case True
  let ?w = "run events module_loaded"
  let ?reg = "registered_by co ?w"
  have inv: "world_inv ?w" by (rule world_inv_run)
  then have "\<forall>c < length (coordinators ?w).
      all_sensors (coordinators ?w ! c) = Suc c \<and>
      mset (map metadata (registered_by c ?w)) + mset (heap ?w ! Suc c) \<subseteq># mset RT_SENSORS"
    unfolding world_inv_def by (elim conjE)
  with True have both:
    "mset (map metadata ?reg) + mset (heap ?w ! Suc co) \<subseteq># mset RT_SENSORS"
    by (elim allE[where x = co]) (elim impE conjE, assumption+)
  have "mset (map metadata ?reg) \<subseteq># mset (map metadata ?reg) + mset (heap ?w ! Suc co)"
    by (rule mset_subset_eq_add_left)
  then have sub: "mset (map metadata ?reg) \<subseteq># mset RT_SENSORS"
    using both by (rule subset_mset.order_trans)
  have "image_mset key (mset (map metadata ?reg)) \<subseteq># image_mset key (mset RT_SENSORS)"
    by (rule image_mset_subseteq_mono[OF sub])
  then have "mset (map key (map metadata ?reg)) \<subseteq># mset (map key RT_SENSORS)"
    by (simp only: mset_map)
  then have "distinct (map key (map metadata ?reg))"
    by (rule distinct_of_submset) (rule distinct_keys)
  then show ?thesis by (simp only: map_map comp_def)
next
  case False
  have inv: "world_inv (run events module_loaded)" by (rule world_inv_run)
  then have "\<forall>c \<ge> length (coordinators (run events module_loaded)).
      registered_by c (run events module_loaded) = []"
    unfolding world_inv_def by (elim conjE)
  with False have "registered_by co (run events module_loaded) = []" by simp
  then show ?thesis by simp
qed

section \<open>Further helper lemmas\<close>

lemma add_entities_calls_rt_subscribe [simp]:
  "add_entities_calls (rt_subscribe h w) = add_entities_calls w"
  by (simp add: rt_subscribe_def)

lemma setup_homes_calls:
  "add_entities_calls (snd (setup_homes hs homes es w)) = add_entities_calls w"
  by (induction hs homes es w rule: setup_homes.induct)
     (auto simp: migrate_frame split: option.splits)

lemma setup_homes_all_ok:
  "\<forall>h\<in>set homes. update_info h = None \<Longrightarrow>
   fst (setup_homes hs homes es w) = Inr (es @ price_entities hs (length es) homes)"
proof (induction homes arbitrary: es w)
  case Nil
  then show ?case by (simp add: price_entities_def)
next
  case (Cons h homes)
  then show ?case by (simp add: price_entities_def enumerate_Suc_eq)
qed

lemma setup_homes_not_ready:
  "\<forall>x\<in>set pre. update_info x = None \<Longrightarrow> update_info h = Some e \<Longrightarrow>
   e = TimeoutError \<or> e = ClientError \<Longrightarrow>
   fst (setup_homes hs (pre @ h # post) es w) = Inl PlatformNotReady"
  by (induction pre arbitrary: es w) auto


lemma throttle_read_price [simp]:
  "throttle_last_call (read_price home self) = throttle_last_call self"
  by (simp add: read_price_def split: prod.splits)

lemma throttle_fetch_data_body:
  "fetch_data_body env self = (exn, self', home') \<Longrightarrow>
   throttle_last_call self' = throttle_last_call self"
  by (auto simp: fetch_data_body_def split: prod.splits option.splits if_splits)

lemma fetch_data_throttle:
  assumes "fetch_data env self = ((exn, self', home'), body_ran)"
  shows "throttle_last_call self' =
           (if body_ran then Some (clock env) else throttle_last_call self)"
    and "body_ran \<Longrightarrow> Throttle MIN_TIME_BETWEEN_UPDATES (throttle_last_call self) (clock env)"
proof -
  show "throttle_last_call self' =
           (if body_ran then Some (clock env) else throttle_last_call self)"
  proof (cases "Throttle MIN_TIME_BETWEEN_UPDATES (throttle_last_call self) (clock env)")
    case True
    with assms have b: "fetch_data_body env (self\<lparr>throttle_last_call := Some (clock env)\<rparr>) =
        (exn, self', home')" and r: body_ran by (simp_all add: fetch_data_def)
    from throttle_fetch_data_body[OF b] r show ?thesis by simp
  next
    case False
    with assms show ?thesis by (simp add: fetch_data_def)
  qed
  show "body_ran \<Longrightarrow> Throttle MIN_TIME_BETWEEN_UPDATES (throttle_last_call self) (clock env)"
    using assms by (cases "Throttle MIN_TIME_BETWEEN_UPDATES (throttle_last_call self) (clock env)")
      (simp_all add: fetch_data_def)
qed

lemma async_update_throttle:
  assumes "async_update env self = (exn, self', body_ran)"
  shows "throttle_last_call self' =
           (if body_ran then Some (clock env) else throttle_last_call self)"
    and "body_ran \<Longrightarrow> Throttle MIN_TIME_BETWEEN_UPDATES (throttle_last_call self) (clock env)"
proof -
  obtain p r where "fetch_data env self = (p, r)" by (cases "fetch_data env self")
  moreover obtain x s h where "p = (x, s, h)" by (cases p rule: prod_cases3)
  ultimately have f: "fetch_data env self = ((x, s, h), r)" by simp
  note ft = fetch_data_throttle[OF f]
  show "throttle_last_call self' =
           (if body_ran then Some (clock env) else throttle_last_call self)"
    using assms f ft(1)
    by (auto simp: async_update_def split: if_splits option.splits)
  show "body_ran \<Longrightarrow> Throttle MIN_TIME_BETWEEN_UPDATES (throttle_last_call self) (clock env)"
    using assms f ft(2)
    by (auto simp: async_update_def split: if_splits option.splits)
qed

lemma async_updates_spaced:
  "sorted (map clock envs) \<Longrightarrow>
   \<forall>l. throttle_last_call self = Some l \<longrightarrow> (\<forall>e\<in>set envs. l \<le> clock e) \<Longrightarrow>
   sorted_wrt (\<lambda>a b. MIN_TIME_BETWEEN_UPDATES < b - a) (fst (async_updates envs self)) \<and>
   (\<forall>t\<in>set (fst (async_updates envs self)).
      (\<exists>e\<in>set envs. t = clock e) \<and>
      (\<forall>l. throttle_last_call self = Some l \<longrightarrow> MIN_TIME_BETWEEN_UPDATES < t - l))"
proof (induction envs arbitrary: self)
  case Nil
  then show ?case by simp
next
  case (Cons env envs)
  obtain exn self' body_ran where u: "async_update env self = (exn, self', body_ran)"
    by (cases "async_update env self" rule: prod_cases3)
  obtain ts self'' where r: "async_updates envs self' = (ts, self'')"
    by (cases "async_updates envs self'")
  note th = async_update_throttle[OF u]
  have sorted': "sorted (map clock envs)" and first: "\<forall>e\<in>set envs. clock env \<le> clock e"
    using Cons.prems(1) by auto
  have bound': "\<forall>l. throttle_last_call self' = Some l \<longrightarrow> (\<forall>e\<in>set envs. l \<le> clock e)"
    using th(1) first Cons.prems(2) by (auto split: if_splits)
  from Cons.IH[OF sorted' bound'] r
  have ih1: "sorted_wrt (\<lambda>a b. MIN_TIME_BETWEEN_UPDATES < b - a) ts"
    and ih2: "\<forall>t\<in>set ts. (\<exists>e\<in>set envs. t = clock e) \<and>
      (\<forall>l. throttle_last_call self' = Some l \<longrightarrow> MIN_TIME_BETWEEN_UPDATES < t - l)"
    by simp_all
  have pos: "0 < MIN_TIME_BETWEEN_UPDATES" by (simp add: MIN_TIME_BETWEEN_UPDATES_def)
  show ?case
  proof (cases body_ran)
    case True
    then have l': "throttle_last_call self' = Some (clock env)" using th(1) by simp
    have thr: "Throttle MIN_TIME_BETWEEN_UPDATES (throttle_last_call self) (clock env)"
      using th(2) True by simp
    have res: "fst (async_updates (env # envs) self) = clock env # ts"
      using u r True by simp
    have gap: "\<forall>t\<in>set ts. MIN_TIME_BETWEEN_UPDATES < t - clock env" using ih2 l' by simp
    have old: "\<forall>l. throttle_last_call self = Some l \<longrightarrow>
        MIN_TIME_BETWEEN_UPDATES < clock env - l"
      using thr by (simp add: Throttle_def split: option.splits)
    have old': "\<forall>t\<in>set ts. \<forall>l. throttle_last_call self = Some l \<longrightarrow>
        MIN_TIME_BETWEEN_UPDATES < t - l"
    proof (intro ballI allI impI)
      fix t l assume t: "t \<in> set ts" and l: "throttle_last_call self = Some l"
      from gap t pos have "clock env \<le> t" by fastforce
      moreover from old l have "MIN_TIME_BETWEEN_UPDATES < clock env - l" by simp
      ultimately show "MIN_TIME_BETWEEN_UPDATES < t - l" by linarith
    qed
    show ?thesis unfolding res using ih1 ih2 gap old old' by auto
  next
    case False
    then have l': "throttle_last_call self' = throttle_last_call self" using th(1) by simp
    have res: "fst (async_updates (env # envs) self) = ts"
      using u r False by simp
    show ?thesis unfolding res using ih1 ih2 l' by auto
  qed
qed


lemma mk_metadata_key [simp]: "key (mk_metadata k n dc u sc rt) = k"
  by (simp add: mk_metadata_def)

lemma mk_metadata_eq [simp]:
  "(mk_metadata k n dc u sc rt = mk_metadata k' n' dc' u' sc' rt') =
   (k = k' \<and> n = n' \<and> dc = dc' \<and> u = u' \<and> sc = sc' \<and> rt = rt')"
  by (cases u; cases u'; cases sc; cases sc') (auto simp: mk_metadata_def)

lemma loop_step:
  "i < length xs \<Longrightarrow> py_get lm (key (xs ! i)) JNull = Inr state \<Longrightarrow> state \<noteq> JNull \<Longrightarrow>
   add_sensors_loop dt h co lm i xs acc =
   add_sensors_loop dt h co lm (Suc i) (remove1 (xs ! i) xs)
     (acc @ [TibberSensorRT_init dt h (xs ! i) state co])"
  by simp

lemma setup_sample:
  "snd (async_setup_entry sample_host [sample_home] module_loaded) =
   \<lparr>heap = [RT_SENSORS, RT_SENSORS],
    coordinators = [\<lparr>all_sensors = 1, co_tibber_home = sample_home, co_name = ''Road 1'',
                     data = JNull\<rparr>],
    add_entities_calls = [([PriceSensor (TibberSensorElPrice_init sample_home 1234)], True)],
    registry_calls = []\<rparr>"
  by (simp add: async_setup_entry_def sample_home_def sample_host_def module_loaded_def
      rt_subscribe_def migrate_def RT_SENSORS_addr_def)

lemma loop_sample:
  "add_sensors_loop sample_dt_util sample_home 0 (JDict sample_full_measurement) 0 RT_SENSORS [] =
   (xs, r) \<Longrightarrow>
   map key xs = [''power'', ''minPower'', ''accumulatedConsumption'', ''accumulatedProduction'',
      ''lastMeterConsumption'', ''voltagePhase1'', ''voltagePhase3'', ''currentL2'',
      ''signalStrength'', ''accumulatedCost''] \<and>
   (\<exists>new. r = Inr new \<and> map (\<lambda>s. key (metadata s)) new =
     [''averagePower'', ''powerProduction'', ''maxPower'', ''accumulatedConsumptionLastHour'',
      ''accumulatedProductionLastHour'', ''lastMeterProduction'', ''voltagePhase2'',
      ''currentL1'', ''currentL3'', ''accumulatedReward'', ''powerFactor''])"
  unfolding sample_full_measurement_def RT_SENSORS_def
  by (simp add: loop_step loop_done del: add_sensors_loop.simps) auto

section \<open>The remaining claims\<close>

text \<open>
  C2 fails on the code. A coordinator right after setup has every descriptor of
  \<open>RT_SENSORS\<close> pending; an update whose live measurement has a value for every one of
  the 21 keys registers entities for 11 of them only and leaves the other 10 pending.
  The loop removes the current descriptor from the list it is iterating over, so the
  iterator's index passes over the descriptor that moves into the freed position.
\<close>

theorem add_sensors_skips_descriptors:
  "map (\<lambda>s. key (metadata s))
     (registered_by 0
        (run [Setup sample_host [sample_home],
              Update sample_dt_util 0 (sample_data sample_full_measurement)] module_loaded)) =
     [''averagePower'', ''powerProduction'', ''maxPower'', ''accumulatedConsumptionLastHour'',
      ''accumulatedProductionLastHour'', ''lastMeterProduction'', ''voltagePhase2'',
      ''currentL1'', ''currentL3'', ''accumulatedReward'', ''powerFactor''] \<and>
   map key
     (heap (run [Setup sample_host [sample_home],
                 Update sample_dt_util 0 (sample_data sample_full_measurement)] module_loaded) ! 1) =
     [''power'', ''minPower'', ''accumulatedConsumption'', ''accumulatedProduction'',
      ''lastMeterConsumption'', ''voltagePhase1'', ''voltagePhase3'', ''currentL2'',
      ''signalStrength'', ''accumulatedCost'']"
proof -
  obtain xs r where loop:
    "add_sensors_loop sample_dt_util sample_home 0 (JDict sample_full_measurement) 0 RT_SENSORS [] =
     (xs, r)"
    by (cases "add_sensors_loop sample_dt_util sample_home 0 (JDict sample_full_measurement) 0
                 RT_SENSORS []")
  from loop_sample[OF loop] obtain new where r: "r = Inr new"
    and keys: "map (\<lambda>s. key (metadata s)) new =
     [''averagePower'', ''powerProduction'', ''maxPower'', ''accumulatedConsumptionLastHour'',
      ''accumulatedProductionLastHour'', ''lastMeterProduction'', ''voltagePhase2'',
      ''currentL1'', ''currentL3'', ''accumulatedReward'', ''powerFactor'']"
    and pending: "map key xs = [''power'', ''minPower'', ''accumulatedConsumption'',
      ''accumulatedProduction'', ''lastMeterConsumption'', ''voltagePhase1'', ''voltagePhase3'',
      ''currentL2'', ''signalStrength'', ''accumulatedCost'']"
    by auto
  from keys have ne: "new \<noteq> []" by auto
  have own: "filter (\<lambda>s. coordinator s = 0) new = new"
    using loop_inv[OF loop] r by (simp add: filter_id_conv)
  have t: "truthy (JDict sample_full_measurement)" by (simp add: sample_full_measurement_def)
  let ?w = "run [Setup sample_host [sample_home],
              Update sample_dt_util 0 (sample_data sample_full_measurement)] module_loaded"
  have w: "heap ?w = [RT_SENSORS, xs] \<and>
           add_entities_calls ?w =
             [([PriceSensor (TibberSensorElPrice_init sample_home 1234)], True),
              (map RealTimeSensor new, False)]"
    using loop r ne t
    by (simp add: run_def setup_sample async_set_updated_data_def add_sensors_def
        del: add_sensors_loop.simps)
  have p: "rt_entities [PriceSensor (TibberSensorElPrice_init sample_home 1234)] = []"
    by (simp add: rt_entities_def)
  have "rt_entities ([PriceSensor (TibberSensorElPrice_init sample_home 1234)] @
          map RealTimeSensor new) = new"
    by (simp only: rt_entities_append rt_entities_RealTime p append_Nil)
  with w have "registered_by 0 ?w = new"
    by (simp add: registered_by_def own)
  with w keys pending show ?thesis by simp
qed

text \<open>
  C4. If the first home whose \<open>update_info\<close> raises does so with TimeoutError or
  ClientError, \<open>async_setup_entry\<close> raises PlatformNotReady and makes no call of
  \<open>async_add_entities\<close>. If no home's \<open>update_info\<close> raises, it returns normally and
  its one call hands over, with \<open>True\<close>, exactly one \<open>TibberSensorElPrice\<close> per home with an
  active subscription.
\<close>

theorem setup_entry_outcome:
  "((\<forall>x\<in>set pre. update_info x = None) \<longrightarrow>
    update_info h = Some TimeoutError \<or> update_info h = Some ClientError \<longrightarrow>
      fst (async_setup_entry hs (pre @ h # post) w) = Some PlatformNotReady \<and>
      add_entities_calls (snd (async_setup_entry hs (pre @ h # post) w)) = add_entities_calls w) \<and>
   ((\<forall>x\<in>set homes. update_info x = None) \<longrightarrow>
      fst (async_setup_entry hs homes w) = None \<and>
      add_entities_calls (snd (async_setup_entry hs homes w)) =
        add_entities_calls w @ [(price_entities hs 0 homes, True)])"
proof (intro conjI impI)
  assume pre: "\<forall>x\<in>set pre. update_info x = None"
    and h: "update_info h = Some TimeoutError \<or> update_info h = Some ClientError"
  obtain r w' where run: "setup_homes hs (pre @ h # post) [] w = (r, w')"
    by (cases "setup_homes hs (pre @ h # post) [] w")
  from h obtain e where e: "update_info h = Some e" "e = TimeoutError \<or> e = ClientError" by auto
  from setup_homes_not_ready[OF pre e, of hs post "[]" w] run
  have r: "r = Inl PlatformNotReady" by simp
  from setup_homes_calls[of hs "pre @ h # post" "[]" w] run
  have c: "add_entities_calls w' = add_entities_calls w" by simp
  show "fst (async_setup_entry hs (pre @ h # post) w) = Some PlatformNotReady"
    using run r by (simp add: async_setup_entry_def)
  show "add_entities_calls (snd (async_setup_entry hs (pre @ h # post) w)) = add_entities_calls w"
    using run r c by (simp add: async_setup_entry_def)
next
  assume ok: "\<forall>x\<in>set homes. update_info x = None"
  obtain r w' where run: "setup_homes hs homes [] w = (r, w')"
    by (cases "setup_homes hs homes [] w")
  from setup_homes_all_ok[OF ok, of hs "[]" w] run
  have r: "r = Inr (price_entities hs 0 homes)" by simp
  from setup_homes_calls[of hs homes "[]" w] run
  have c: "add_entities_calls w' = add_entities_calls w" by simp
  show "fst (async_setup_entry hs homes w) = None"
    using run r by (simp add: async_setup_entry_def)
  show "add_entities_calls (snd (async_setup_entry hs homes w)) =
        add_entities_calls w @ [(price_entities hs 0 homes, True)]"
    using run r c by (simp add: async_setup_entry_def)
qed

theorem setup_entry_outcome_witness:
  "fst (async_setup_entry sample_host [sample_home, sample_failing_home, sample_inactive_home]
      module_loaded) = Some PlatformNotReady \<and>
   add_entities_calls (snd (async_setup_entry sample_host
      [sample_home, sample_failing_home, sample_inactive_home] module_loaded)) = [] \<and>
   fst (async_setup_entry sample_host [sample_home, sample_inactive_home] module_loaded) = None \<and>
   add_entities_calls (snd (async_setup_entry sample_host [sample_home, sample_inactive_home]
      module_loaded)) = [([PriceSensor (TibberSensorElPrice_init sample_home 1234)], True)]"
proof -
  have u: "update_info sample_home = None" "update_info sample_failing_home = Some TimeoutError"
    "update_info sample_inactive_home = None"
    "has_active_subscription sample_home" "\<not> has_active_subscription sample_inactive_home"
    by (simp_all add: sample_home_def sample_failing_home_def sample_inactive_home_def)
  have e: "add_entities_calls module_loaded = []" by (simp add: module_loaded_def)
  have p: "price_entities sample_host 0 [sample_home, sample_inactive_home] =
           [PriceSensor (TibberSensorElPrice_init sample_home 1234)]"
    by (simp add: price_entities_def u sample_host_def)
  from setup_entry_outcome[where pre = "[sample_home]" and h = sample_failing_home
      and post = "[sample_inactive_home]" and hs = sample_host and w = module_loaded
      and homes = "[sample_home, sample_inactive_home]"]
  show ?thesis by (simp add: u e p)
qed

text \<open>
  C6. For any sequence of \<open>async_update\<close> calls on a price sensor, made at clock readings
  that do not decrease, any two runs of the body of \<open>_fetch_data\<close> are more than
  \<open>MIN_TIME_BETWEEN_UPDATES\<close> apart: no window of five minutes holds two of them.
\<close>

theorem fetch_data_throttled:
  "sorted (map clock envs) \<Longrightarrow>
   sorted_wrt (\<lambda>a b. MIN_TIME_BETWEEN_UPDATES < b - a)
     (fst (async_updates envs (TibberSensorElPrice_init h r)))"
proof -
  assume s: "sorted (map clock envs)"
  have n: "throttle_last_call (TibberSensorElPrice_init h r) = None"
    by (simp add: TibberSensorElPrice_init_def)
  then have "\<forall>l. throttle_last_call (TibberSensorElPrice_init h r) = Some l \<longrightarrow>
      (\<forall>e\<in>set envs. l \<le> clock e)" by simp
  from async_updates_spaced[OF s this] show ?thesis by simp
qed

theorem fetch_data_throttled_witness:
  "sorted (map clock [sample_env 0, sample_env 100, sample_env 300, sample_env 301]) \<and>
   fst (async_updates [sample_env 0, sample_env 100, sample_env 300, sample_env 301]
     (TibberSensorElPrice_init sample_home 1234)) = [0, 301] \<and>
   sorted_wrt (\<lambda>a b. MIN_TIME_BETWEEN_UPDATES < b - a)
     (fst (async_updates [sample_env 0, sample_env 100, sample_env 300, sample_env 301]
        (TibberSensorElPrice_init sample_home 1234)))"
proof -
  have s: "sorted (map clock [sample_env 0, sample_env 100, sample_env 300, sample_env 301])"
    by (simp add: sample_env_def)
  have v: "fst (async_updates [sample_env 0, sample_env 100, sample_env 300, sample_env 301]
     (TibberSensorElPrice_init sample_home 1234)) = [0, 301]"
    by (simp add: async_update_def asks_for_new_data_def fetch_data_def fetch_data_body_def
        Throttle_def MIN_TIME_BETWEEN_UPDATES_def sample_env_def sample_price_home_def
        TibberSensorElPrice_init_def read_price_def)
  from fetch_data_throttled[OF s, of sample_home 1234] s v show ?thesis by simp
qed

end
